theory Spec2Isabelle
  imports Main
begin

section \<open>Python values used by \<^verbatim>\<open>daily_financial_update.py\<close>\<close>

text \<open>
  A Python \<^verbatim>\<open>str\<close> is a sequence of Unicode code points: \<^verbatim>\<open>len\<close> and slicing count
  code points, not bytes. The template of the script holds characters outside ASCII, so a
  string is modelled as the list of its code points.
\<close>

type_synonym pystr = "nat list"

definition ascii :: "string \<Rightarrow> pystr" where
  "ascii s = map of_char s"

text \<open>
  What \<^verbatim>\<open>response.json()\<close> returns: the Python image of a JSON document. An object is
  a \<^verbatim>\<open>dict\<close>, kept as an association list read with \<open>map_of\<close>; JSON \<^verbatim>\<open>null\<close> is
  Python's \<^verbatim>\<open>None\<close>. The single characters that iterating over a \<^verbatim>\<open>str\<close> yields are
  one-element \<open>JStr\<close> values. The script never computes with a number: it only tells
  dicts, lists and strings from the other values, so integers stand for all numbers.
\<close>

datatype json =
    JNull
  | JBool bool
  | JNum int
  | JStr pystr
  | JArr "json list"
  | JObj "(pystr \<times> json) list"

text \<open>
  The exceptions that the operations of the script can raise. All of them derive from
  Python's \<^verbatim>\<open>Exception\<close>, so \<^verbatim>\<open>except Exception\<close> catches each one.
  \<open>RequestException\<close> stands for every failure of \<^verbatim>\<open>requests.post\<close> itself
  (connection error, timeout, ...) and carries its message.
\<close>

datatype py_exception =
    RequestException pystr
  | JSONDecodeError
  | TypeError
  | KeyError
  | AttributeError

text \<open>Truth value of an \<^verbatim>\<open>Optional[str]\<close>: \<^verbatim>\<open>None\<close> and the empty string are false.\<close>

definition truthy :: "pystr option \<Rightarrow> bool" where
  "truthy v = (case v of None \<Rightarrow> False | Some s \<Rightarrow> s \<noteq> [])"

text \<open>\<^verbatim>\<open>f'{v}'\<close> for an \<^verbatim>\<open>Optional[str]\<close>.\<close>

definition format_optional :: "pystr option \<Rightarrow> pystr" where
  "format_optional v = (case v of None \<Rightarrow> ascii ''None'' | Some s \<Rightarrow> s)"

text \<open>\<^verbatim>\<open>needle in hay\<close> on two strings: \<open>needle\<close> occurs as a contiguous run.\<close>

fun starts_with :: "pystr \<Rightarrow> pystr \<Rightarrow> bool" where
  "starts_with [] hay = True"
| "starts_with (c # cs) [] = False"
| "starts_with (c # cs) (h # hs) = (c = h \<and> starts_with cs hs)"

fun str_contains :: "pystr \<Rightarrow> pystr \<Rightarrow> bool" where
  "str_contains needle [] = (needle = [])"
| "str_contains needle (h # hs) = (starts_with needle (h # hs) \<or> str_contains needle hs)"

text \<open>
  \<^verbatim>\<open>key in data\<close> for a string \<open>key\<close>: membership among the keys of a dict, among the
  elements of a list, substring test on a string; \<^verbatim>\<open>None\<close>, booleans and numbers are not
  iterable and raise \<^verbatim>\<open>TypeError\<close>.
\<close>

fun py_contains :: "pystr \<Rightarrow> json \<Rightarrow> py_exception + bool" where
  "py_contains key (JObj kvs) = Inr (key \<in> set (map fst kvs))"
| "py_contains key (JArr xs) = Inr (JStr key \<in> set xs)"
| "py_contains key (JStr s) = Inr (str_contains key s)"
| "py_contains key JNull = Inl TypeError"
| "py_contains key (JBool b) = Inl TypeError"
| "py_contains key (JNum n) = Inl TypeError"

text \<open>
  \<^verbatim>\<open>data[key]\<close> for a string \<open>key\<close>: a dict looks the key up (\<^verbatim>\<open>KeyError\<close> when it is
  missing); lists and strings take integer indices only, the other values are not
  subscriptable: \<^verbatim>\<open>TypeError\<close>.
\<close>

fun py_getitem :: "json \<Rightarrow> pystr \<Rightarrow> py_exception + json" where
  "py_getitem (JObj kvs) key = (case map_of kvs key of Some v \<Rightarrow> Inr v | None \<Rightarrow> Inl KeyError)"
| "py_getitem (JArr xs) key = Inl TypeError"
| "py_getitem (JStr s) key = Inl TypeError"
| "py_getitem JNull key = Inl TypeError"
| "py_getitem (JBool b) key = Inl TypeError"
| "py_getitem (JNum n) key = Inl TypeError"

text \<open>
  \<^verbatim>\<open>v[:n]\<close>: the first \<open>n\<close> elements of a list, the first \<open>n\<close> characters of a string.
  A dict rejects a slice as key (\<^verbatim>\<open>TypeError\<close> up to Python 3.11, \<^verbatim>\<open>KeyError\<close> from
  3.12 on; the caller catches both alike), the remaining values are not subscriptable.
\<close>

fun py_slice_to :: "json \<Rightarrow> nat \<Rightarrow> py_exception + json" where
  "py_slice_to (JArr xs) n = Inr (JArr (take n xs))"
| "py_slice_to (JStr s) n = Inr (JStr (take n s))"
| "py_slice_to (JObj kvs) n = Inl TypeError"
| "py_slice_to JNull n = Inl TypeError"
| "py_slice_to (JBool b) n = Inl TypeError"
| "py_slice_to (JNum k) n = Inl TypeError"

text \<open>
  \<^verbatim>\<open>acc.extend(v)\<close>: appends the elements that iterating over \<open>v\<close> yields (the elements
  of a list, the characters of a string, the keys of a dict).
\<close>

fun py_extend :: "json list \<Rightarrow> json \<Rightarrow> py_exception + json list" where
  "py_extend acc (JArr xs) = Inr (acc @ xs)"
| "py_extend acc (JStr s) = Inr (acc @ map (\<lambda>c. JStr [c]) s)"
| "py_extend acc (JObj kvs) = Inr (acc @ map (\<lambda>kv. JStr (fst kv)) kvs)"
| "py_extend acc JNull = Inl TypeError"
| "py_extend acc (JBool b) = Inl TypeError"
| "py_extend acc (JNum n) = Inl TypeError"

text \<open>
  \<^verbatim>\<open>item.get(key, default)\<close>: only a dict has the method \<^verbatim>\<open>get\<close>; on every other
  value the attribute lookup raises \<^verbatim>\<open>AttributeError\<close>.
\<close>

fun py_get :: "json \<Rightarrow> pystr \<Rightarrow> json \<Rightarrow> py_exception + json" where
  "py_get (JObj kvs) key dflt = Inr (case map_of kvs key of Some v \<Rightarrow> v | None \<Rightarrow> dflt)"
| "py_get (JArr xs) key dflt = Inl AttributeError"
| "py_get (JStr s) key dflt = Inl AttributeError"
| "py_get JNull key dflt = Inl AttributeError"
| "py_get (JBool b) key dflt = Inl AttributeError"
| "py_get (JNum n) key dflt = Inl AttributeError"

text \<open>\<^verbatim>\<open>sep.join(parts)\<close>.\<close>

fun join :: "pystr \<Rightarrow> pystr list \<Rightarrow> pystr" where
  "join sep [] = []"
| "join sep [p] = p"
| "join sep (p # q # ps) = p @ sep @ join sep (q # ps)"

text \<open>Decimal digits of a natural number, as \<^verbatim>\<open>str\<close> prints it.\<close>

fun str_of_nat :: "nat \<Rightarrow> pystr" where
  "str_of_nat n = (if n < 10 then [48 + n] else str_of_nat (n div 10) @ [48 + n mod 10])"

declare str_of_nat.simps [simp del]

section \<open>Date and time\<close>

record datetime =
  year :: nat
  month :: nat
  day :: nat
  hour :: nat
  minute :: nat
  second :: nat

text \<open>A number printed with at least \<open>w\<close> digits, padded with zeros on the left.\<close>

definition zero_pad :: "nat \<Rightarrow> nat \<Rightarrow> pystr" where
  "zero_pad w n = replicate (w - length (str_of_nat n)) 48 @ str_of_nat n"

definition month_name :: "nat \<Rightarrow> pystr" where
  "month_name m = ascii
     (if m = 1 then ''January'' else if m = 2 then ''February'' else if m = 3 then ''March''
      else if m = 4 then ''April'' else if m = 5 then ''May'' else if m = 6 then ''June''
      else if m = 7 then ''July'' else if m = 8 then ''August'' else if m = 9 then ''September''
      else if m = 10 then ''October'' else if m = 11 then ''November'' else ''December'')"

text \<open>
  The directives of \<^verbatim>\<open>strftime\<close> that the script uses, in the C locale; every other
  directive is left as it is written.
\<close>

definition directive :: "char \<Rightarrow> datetime \<Rightarrow> pystr" where
  "directive c t =
     (if c = CHR ''Y'' then zero_pad 4 (year t)
      else if c = CHR ''m'' then zero_pad 2 (month t)
      else if c = CHR ''d'' then zero_pad 2 (day t)
      else if c = CHR ''B'' then month_name (month t)
      else if c = CHR ''H'' then zero_pad 2 (hour t)
      else if c = CHR ''M'' then zero_pad 2 (minute t)
      else if c = CHR ''S'' then zero_pad 2 (second t)
      else ascii [CHR ''%'', c])"

fun strftime :: "string \<Rightarrow> datetime \<Rightarrow> pystr" where
  "strftime [] t = []"
| "strftime [c] t = [of_char c]"
| "strftime (c # d # cs) t =
     (if c = CHR ''%'' then directive d t @ strftime cs t
      else of_char c # strftime (d # cs) t)"

declare strftime.simps [simp del]

section \<open>The outside world and the state of a run\<close>

text \<open>
  The environment variables that the module reads once, when it is loaded:
  \<^verbatim>\<open>os.environ.get\<close> gives \<^verbatim>\<open>None\<close> for a variable that is not set.
\<close>

record config =
  NOTION_API_KEY :: "pystr option"
  NOTION_DATABASE_ID :: "pystr option"
  SERPER_API_KEY :: "pystr option"

text \<open>
  A call of \<^verbatim>\<open>requests.post\<close>: the URL, the headers, the JSON document sent as body
  (the script serialises it with \<^verbatim>\<open>json.dumps\<close> for the search, and leaves that to
  \<^verbatim>\<open>requests\<close> for the record), and the timeout in seconds.
\<close>

record request =
  url :: pystr
  headers :: "(pystr \<times> pystr) list"
  body :: json
  timeout :: nat

text \<open>
  A response as the script reads it: the status code, what \<^verbatim>\<open>response.json()\<close> returns
  (\<open>None\<close> when the body is not JSON and the call raises) and \<^verbatim>\<open>response.text\<close>.
\<close>

record response =
  status_code :: nat
  json_body :: "json option"
  body_text :: pystr

text \<open>
  Everything a run cannot decide itself: the clock (the value of the \<open>n\<close>-th call of
  \<^verbatim>\<open>datetime.now()\<close>), the network (what the \<open>n\<close>-th call of \<^verbatim>\<open>requests.post\<close>
  does with its request: it raises or it returns a response) and Python's \<^verbatim>\<open>str()\<close> on
  values other than strings, which the f-strings of the script apply.
\<close>

record world =
  clock :: "nat \<Rightarrow> datetime"
  net :: "nat \<Rightarrow> request \<Rightarrow> py_exception + response"
  str_of :: "json \<Rightarrow> pystr"

text \<open>
  One line of console output: the text of a \<^verbatim>\<open>print\<close> call, or a prefix followed by
  an exception (\<^verbatim>\<open>print(f"...{e}")\<close>).
\<close>

datatype console_line =
    Line pystr
  | LineExc pystr py_exception

text \<open>What a run has done so far: the lines printed, the requests sent, the clock reads.\<close>

record state =
  console :: "console_line list"
  requests :: "request list"
  clock_reads :: nat

definition initial_state :: state where
  "initial_state = \<lparr>console = [], requests = [], clock_reads = 0\<rparr>"

definition print :: "console_line \<Rightarrow> state \<Rightarrow> state" where
  "print line s = s\<lparr>console := console s @ [line]\<rparr>"

definition datetime_now :: "world \<Rightarrow> state \<Rightarrow> datetime \<times> state" where
  "datetime_now w s = (clock w (clock_reads s), s\<lparr>clock_reads := Suc (clock_reads s)\<rparr>)"

definition requests_post :: "world \<Rightarrow> request \<Rightarrow> state \<Rightarrow> (py_exception + response) \<times> state" where
  "requests_post w req s = (net w (length (requests s)) req, s\<lparr>requests := requests s @ [req]\<rparr>)"

definition response_json :: "response \<Rightarrow> py_exception + json" where
  "response_json r = (case json_body r of None \<Rightarrow> Inl JSONDecodeError | Some v \<Rightarrow> Inr v)"

text \<open>\<^verbatim>\<open>f'{v}'\<close>: a string is inserted as it is, any other value through \<^verbatim>\<open>str()\<close>.\<close>

definition format_value :: "world \<Rightarrow> json \<Rightarrow> pystr" where
  "format_value w v = (case v of JStr s \<Rightarrow> s | _ \<Rightarrow> str_of w v)"

section \<open>\<^verbatim>\<open>search_financial_news\<close>\<close>

definition search_queries :: "pystr \<Rightarrow> pystr list" where
  "search_queries today =
    [ascii ''major financial news worldwide '' @ today @ ascii '' stock market'',
     ascii ''market movers stocks '' @ today,
     ascii ''investment opportunities '' @ today @ ascii '' emerging markets'']"

definition serper_request :: "pystr \<Rightarrow> pystr \<Rightarrow> request" where
  "serper_request key query =
    \<lparr>url = ascii ''https://google.serper.dev/search'',
     headers = [(ascii ''X-API-KEY'', key), (ascii ''Content-Type'', ascii ''application/json'')],
     body = JObj [(ascii ''q'', JStr query), (ascii ''num'', JNum 5)],
     timeout = 10\<rparr>"

text \<open>
  The statements of the \<^verbatim>\<open>try\<close> block after the request has returned a response.
  \<^verbatim>\<open>all_results\<close> changes in the last step only, so an exception leaves it as it was.
\<close>

definition search_response :: "response \<Rightarrow> json list \<Rightarrow> py_exception + json list" where
  "search_response response all_results =
    (if status_code response = 200 then
       (case response_json response of
          Inl e \<Rightarrow> Inl e
        | Inr data \<Rightarrow>
            (case py_contains (ascii ''organic'') data of
               Inl e \<Rightarrow> Inl e
             | Inr present \<Rightarrow>
                 if present then
                   (case py_getitem data (ascii ''organic'') of
                      Inl e \<Rightarrow> Inl e
                    | Inr organic \<Rightarrow>
                        (case py_slice_to organic 3 of
                           Inl e \<Rightarrow> Inl e
                         | Inr first3 \<Rightarrow> py_extend all_results first3))
                 else Inr all_results))
     else Inr all_results)"

text \<open>The \<^verbatim>\<open>try\<close> block: the request, then the statements above.\<close>

definition search_attempt ::
  "world \<Rightarrow> request \<Rightarrow> json list \<Rightarrow> state \<Rightarrow> (py_exception + json list) \<times> state" where
  "search_attempt w req all_results s =
    (let (r, s') = requests_post w req s
     in (case r of Inl e \<Rightarrow> Inl e | Inr response \<Rightarrow> search_response response all_results, s'))"

definition skip_search :: "pystr \<Rightarrow> json list \<Rightarrow> state \<Rightarrow> json list \<times> state" where
  "skip_search query all_results s =
    (all_results, print (Line (ascii ''No Serper API key found. Skipping search: '' @ query)) s)"

text \<open>One round of the \<^verbatim>\<open>for\<close> loop.\<close>

definition search_query ::
  "world \<Rightarrow> config \<Rightarrow> pystr \<Rightarrow> json list \<Rightarrow> state \<Rightarrow> json list \<times> state" where
  "search_query w cfg query all_results s =
    (case SERPER_API_KEY cfg of
       None \<Rightarrow> skip_search query all_results s
     | Some key \<Rightarrow>
         if key = [] then skip_search query all_results s
         else
           (let (r, s') = search_attempt w (serper_request key query) all_results s
            in case r of
                 Inr all_results' \<Rightarrow> (all_results', s')
               | Inl e \<Rightarrow> (all_results, print (LineExc (ascii ''Error searching with Serper: '') e) s')))"

fun search_loop ::
  "world \<Rightarrow> config \<Rightarrow> pystr list \<Rightarrow> json list \<Rightarrow> state \<Rightarrow> json list \<times> state" where
  "search_loop w cfg [] all_results s = (all_results, s)"
| "search_loop w cfg (query # queries) all_results s =
    (let (all_results', s') = search_query w cfg query all_results s
     in search_loop w cfg queries all_results' s')"

definition search_financial_news :: "world \<Rightarrow> config \<Rightarrow> state \<Rightarrow> json list \<times> state" where
  "search_financial_news w cfg s =
    (let (now, s') = datetime_now w s;
         today = strftime ''%Y-%m-%d'' now
     in search_loop w cfg (search_queries today) [] s')"

section \<open>\<^verbatim>\<open>analyze_market_data\<close>\<close>

definition analyze_market_data :: json where
  "analyze_market_data =
    JObj [(ascii ''indices'', JObj []), (ascii ''top_movers'', JArr []),
          (ascii ''sentiment'', JStr (ascii ''Mixed''))]"

section \<open>\<^verbatim>\<open>generate_investment_insights\<close>\<close>

text \<open>One element of the list comprehension: the bullet of a news item.\<close>

definition render_item :: "world \<Rightarrow> json \<Rightarrow> py_exception + pystr" where
  "render_item w item =
    (case py_get item (ascii ''title'') (JStr (ascii ''News Item'')) of
       Inl e \<Rightarrow> Inl e
     | Inr title \<Rightarrow>
         (case py_get item (ascii ''snippet'') (JStr (ascii ''No description available'')) of
            Inl e \<Rightarrow> Inl e
          | Inr snippet \<Rightarrow>
              Inr (ascii ''**'' @ format_value w title @ ascii ''**: '' @ format_value w snippet)))"

text \<open>The list comprehension: it stops at the first item that raises.\<close>

fun render_items :: "world \<Rightarrow> json list \<Rightarrow> py_exception + pystr list" where
  "render_items w [] = Inr []"
| "render_items w (item # items) =
    (case render_item w item of
       Inl e \<Rightarrow> Inl e
     | Inr bullet \<Rightarrow>
         (case render_items w items of Inl e \<Rightarrow> Inl e | Inr bullets \<Rightarrow> Inr (bullet # bullets)))"

definition fallback_sentence :: pystr where
  "fallback_sentence = ascii ''Unable to fetch current news. Please check API configurations.''"

text \<open>\<^verbatim>\<open>{news_summary if news_summary else "Unable to fetch ..."}\<close>\<close>

definition news_section :: "pystr \<Rightarrow> pystr" where
  "news_section news_summary = (if news_summary \<noteq> [] then news_summary else fallback_sentence)"

text \<open>The fixed lines of the template between the news section and the footer.\<close>

definition playbook :: pystr where
  "playbook = concat
    [
     ascii ''\<newline>'',
     ascii ''---\<newline>'',
     ascii ''\<newline>'',
     ascii ''## Investment Opportunities for Aggressive Growth (Week Ahead)\<newline>'',
     ascii ''\<newline>'',
     ascii ''### '' @ [0x1F3AF] @ ascii '' HIGH-CONVICTION PLAYS\<newline>'',
     ascii ''\<newline>'',
     ascii ''**1. Technology Sector**\<newline>'',
     ascii ''- **Focus Areas**: AI infrastructure, semiconductors, cloud computing\<newline>'',
     ascii ''- **Catalyst**: Continued enterprise AI adoption\<newline>'',
     ascii ''- **Risk Level**: Medium-High\<newline>'',
     ascii ''\<newline>'',
     ascii ''**2. Emerging Markets**\<newline>'',
     ascii ''- **Focus Areas**: Latin American fintech, Asian e-commerce\<newline>'',
     ascii ''- **Catalyst**: Digital transformation in developing economies\<newline>'',
     ascii ''- **Risk Level**: High (currency and political risk)\<newline>'',
     ascii ''\<newline>'',
     ascii ''**3. Biotech/Healthcare**\<newline>'',
     ascii ''- **Focus Areas**: Gene therapy, precision medicine\<newline>'',
     ascii ''- **Catalyst**: FDA approvals pipeline, aging demographics\<newline>'',
     ascii ''- **Risk Level**: Very High (regulatory and clinical trial risk)\<newline>'',
     ascii ''\<newline>'',
     ascii ''---\<newline>'',
     ascii ''\<newline>'',
     ascii ''## '' @ [0x1F4B0] @ ascii '' Cash Deployment Strategy (Month-to-Month)\<newline>'',
     ascii ''\<newline>'',
     ascii ''For aggressive growth with extra monthly cash flow:\<newline>'',
     ascii ''\<newline>'',
     ascii ''**40%** - Core Tech Positions\<newline>'',
     ascii ''- Dollar-cost average into established tech leaders\<newline>'',
     ascii ''- Focus on companies with strong cash flow and AI exposure\<newline>'',
     ascii ''\<newline>'',
     ascii ''**30%** - High-Growth Plays\<newline>'',
     ascii ''- Build positions in companies with 30%+ revenue growth\<newline>'',
     ascii ''- Look for market leaders in emerging categories\<newline>'',
     ascii ''\<newline>'',
     ascii ''**20%** - Sector Rotation/Opportunistic\<newline>'',
     ascii ''- Rotate based on weekly news and earnings\<newline>'',
     ascii ''- Consider undervalued sectors showing momentum\<newline>'',
     ascii ''\<newline>'',
     ascii ''**10%** - Speculative/High-Risk\<newline>'',
     ascii ''- Small cap stocks with breakthrough potential\<newline>'',
     ascii ''- Set strict stop-losses (15-20%)\<newline>'',
     ascii ''\<newline>'',
     ascii ''---\<newline>'',
     ascii ''\<newline>'',
     ascii ''## '' @ [0x26A0] @ [0xFE0F] @ ascii '' Risk Factors This Week\<newline>'',
     ascii ''\<newline>'',
     ascii ''- **Geopolitical Tensions**: Monitor international developments\<newline>'',
     ascii ''- **Interest Rate Environment**: Fed policy impacts valuations\<newline>'',
     ascii ''- **Valuation Concerns**: Growth stocks at premium multiples\<newline>'',
     ascii ''- **Market Momentum**: Watch for technical indicators\<newline>'',
     ascii ''\<newline>'',
     ascii ''---\<newline>'',
     ascii ''\<newline>'',
     ascii ''## '' @ [0x1F4C5] @ ascii '' Week Ahead Catalysts\<newline>'',
     ascii ''\<newline>'',
     ascii ''- Earnings season developments\<newline>'',
     ascii ''- Economic data releases (GDP, employment, inflation)\<newline>'',
     ascii ''- Sector-specific news and M&A activity\<newline>'',
     ascii ''- Global market correlations\<newline>'',
     ascii ''\<newline>'',
     ascii ''---\<newline>'',
     ascii ''\<newline>'',
     ascii ''**Disclaimer**: This is educational analysis based on current market data, not personalized financial advice. Markets are inherently risky, especially with aggressive growth strategies. Conduct your own research and consider consulting a licensed financial advisor before making investment decisions.\<newline>'',
     ascii ''\<newline>''
    ]"

text \<open>The template, with its four holes and the length of the news sequence.\<close>

definition document :: "pystr \<Rightarrow> pystr \<Rightarrow> nat \<Rightarrow> pystr \<Rightarrow> pystr" where
  "document today section count generated =
     ascii ''# Market Overview - '' @ today @ ascii ''\<newline>''
     @ ascii ''\<newline>''
     @ ascii ''## Key Financial Events Worldwide\<newline>''
     @ ascii ''\<newline>''
     @ section @ ascii ''\<newline>''
     @ playbook
     @ ascii ''**Data Sources**: '' @ str_of_nat count @ ascii '' news sources analyzed\<newline>''
     @ ascii ''**Generated**: '' @ generated @ ascii ''\<newline>''"

definition generate_investment_insights ::
  "world \<Rightarrow> json list \<Rightarrow> state \<Rightarrow> (py_exception + pystr) \<times> state" where
  "generate_investment_insights w news_results s =
    (let (now, s') = datetime_now w s;
         today = strftime ''%B %d, %Y'' now
     in case render_items w (take 5 news_results) of
          Inl e \<Rightarrow> (Inl e, s')
        | Inr bullets \<Rightarrow>
            (let news_summary = join (ascii ''\<newline>\<newline>'') bullets;
                 (now', s'') = datetime_now w s'
             in (Inr (document today (news_section news_summary) (length news_results)
                        (strftime ''%Y-%m-%d %H:%M UTC'' now')), s'')))"

section \<open>\<^verbatim>\<open>create_notion_page\<close>\<close>

definition NOTION_VERSION :: pystr where
  "NOTION_VERSION = ascii ''2022-06-28''"

definition NOTION_HEADERS :: "config \<Rightarrow> (pystr \<times> pystr) list" where
  "NOTION_HEADERS cfg =
    [(ascii ''Authorization'', ascii ''Bearer '' @ format_optional (NOTION_API_KEY cfg)),
     (ascii ''Content-Type'', ascii ''application/json''),
     (ascii ''Notion-Version'', NOTION_VERSION)]"

definition json_of_optional :: "pystr option \<Rightarrow> json" where
  "json_of_optional v = (case v of None \<Rightarrow> JNull | Some s \<Rightarrow> JStr s)"

text \<open>The dict \<^verbatim>\<open>page_data\<close>; \<open>date\<close> is \<^verbatim>\<open>today.strftime('%Y-%m-%d')\<close>.\<close>

definition page_data :: "config \<Rightarrow> pystr \<Rightarrow> pystr \<Rightarrow> pystr \<Rightarrow> json" where
  "page_data cfg page_title date content =
    JObj
     [(ascii ''parent'', JObj [(ascii ''database_id'', json_of_optional (NOTION_DATABASE_ID cfg))]),
      (ascii ''properties'', JObj
        [(ascii ''Name'', JObj
           [(ascii ''title'', JArr [JObj [(ascii ''text'', JObj [(ascii ''content'', JStr page_title)])]])]),
         (ascii ''Date'', JObj [(ascii ''date'', JObj [(ascii ''start'', JStr date)])]),
         (ascii ''Market Sentiment'', JObj [(ascii ''select'', JObj [(ascii ''name'', JStr (ascii ''Mixed''))])]),
         (ascii ''Key Events'', JObj [(ascii ''number'', JNum 5)])]),
      (ascii ''children'', JArr
        [JObj
          [(ascii ''object'', JStr (ascii ''block'')),
           (ascii ''type'', JStr (ascii ''paragraph'')),
           (ascii ''paragraph'', JObj
             [(ascii ''rich_text'', JArr
               [JObj
                 [(ascii ''type'', JStr (ascii ''text'')),
                  (ascii ''text'', JObj [(ascii ''content'', JStr (take 2000 content))])]])])]])]"

definition notion_request :: "config \<Rightarrow> json \<Rightarrow> request" where
  "notion_request cfg data =
    \<lparr>url = ascii ''https://api.notion.com/v1/pages'',
     headers = NOTION_HEADERS cfg,
     body = data,
     timeout = 30\<rparr>"

text \<open>
  The branch for status 200: the success line, then the line with the URL, whose
  \<^verbatim>\<open>response.json().get('url')\<close> is evaluated inside the \<^verbatim>\<open>try\<close> block, before
  \<^verbatim>\<open>return True\<close>.
\<close>

definition report_created :: "world \<Rightarrow> pystr \<Rightarrow> response \<Rightarrow> state \<Rightarrow> (py_exception + bool) \<times> state" where
  "report_created w page_title response s =
    (let s' = print (Line ([0x2705] @ ascii '' Successfully created Notion page: '' @ page_title)) s
     in case response_json response of
          Inl e \<Rightarrow> (Inl e, s')
        | Inr data \<Rightarrow>
            (case py_get data (ascii ''url'') JNull of
               Inl e \<Rightarrow> (Inl e, s')
             | Inr u \<Rightarrow> (Inr True, print (Line (ascii ''URL: '' @ format_value w u)) s')))"

definition report_rejected :: "response \<Rightarrow> state \<Rightarrow> (py_exception + bool) \<times> state" where
  "report_rejected response s =
    (Inr False,
     print (Line (ascii ''Response: '' @ body_text response))
       (print (Line ([0x274C] @ ascii '' Error creating Notion page: '' @ str_of_nat (status_code response))) s))"

text \<open>The \<^verbatim>\<open>try\<close> block.\<close>

definition create_attempt ::
  "world \<Rightarrow> config \<Rightarrow> pystr \<Rightarrow> json \<Rightarrow> state \<Rightarrow> (py_exception + bool) \<times> state" where
  "create_attempt w cfg page_title data s =
    (let (r, s') = requests_post w (notion_request cfg data) s
     in case r of
          Inl e \<Rightarrow> (Inl e, s')
        | Inr response \<Rightarrow>
            if status_code response = 200 then report_created w page_title response s'
            else report_rejected response s')"

definition create_notion_page :: "world \<Rightarrow> config \<Rightarrow> pystr \<Rightarrow> state \<Rightarrow> bool \<times> state" where
  "create_notion_page w cfg content s =
    (let (today, s') = datetime_now w s;
         page_title = ascii ''Financial Intelligence - '' @ strftime ''%B %d, %Y'' today;
         data = page_data cfg page_title (strftime ''%Y-%m-%d'' today) content;
         (r, s'') = create_attempt w cfg page_title data s'
     in case r of
          Inr success \<Rightarrow> (success, s'')
        | Inl e \<Rightarrow> (False, print (LineExc ([0x274C] @ ascii '' Exception creating Notion page: '') e) s''))"

section \<open>\<^verbatim>\<open>main\<close> and the script\<close>

text \<open>The two lines printed first.\<close>

definition main_begin :: "world \<Rightarrow> state \<Rightarrow> state" where
  "main_begin w s =
    (let s1 = print (Line ([0x1F680] @ ascii '' Starting Daily Financial Intelligence Update...'')) s;
         (now, s2) = datetime_now w s1
     in print (Line ([0x23F0] @ ascii '' Current time: '' @ strftime ''%Y-%m-%d %H:%M:%S UTC'' now)) s2)"

text \<open>Steps 1 to 3: fetch the news, the market data stub, compose the document.\<close>

definition main_steps_1_to_3 ::
  "world \<Rightarrow> config \<Rightarrow> state \<Rightarrow> (py_exception + pystr) \<times> state" where
  "main_steps_1_to_3 w cfg s =
    (let s1 = print (Line (ascii ''\<newline>'' @ [0x1F4F0] @ ascii '' Fetching financial news...'')) s;
         (news_results, s2) = search_financial_news w cfg s1;
         s3 = print (Line ([0x2705] @ ascii '' Found '' @ str_of_nat (length news_results) @ ascii '' news items'')) s2;
         s4 = print (Line (ascii ''\<newline>'' @ [0x1F4CA] @ ascii '' Analyzing market data...'')) s3;
         market_data = analyze_market_data;
         s5 = print (Line ([0x2705] @ ascii '' Market data analyzed'')) s4;
         s6 = print (Line (ascii ''\<newline>'' @ [0x1F9E0] @ ascii '' Generating investment insights...'')) s5;
         (r, s7) = generate_investment_insights w news_results s6
     in case r of
          Inl e \<Rightarrow> (Inl e, s7)
        | Inr content \<Rightarrow> (Inr content, print (Line ([0x2705] @ ascii '' Insights generated'')) s7))"

definition creating_line :: console_line where
  "creating_line = Line (ascii ''\<newline>'' @ [0x1F4DD] @ ascii '' Creating Notion page...'')"

text \<open>Step 4: publish, and report the outcome.\<close>

definition main_step_4 :: "world \<Rightarrow> config \<Rightarrow> pystr \<Rightarrow> state \<Rightarrow> bool \<times> state" where
  "main_step_4 w cfg content s =
    (let (success, s') = create_notion_page w cfg content (print creating_line s)
     in if success then
          (True, print (Line (ascii ''\<newline>'' @ [0x2705] @ ascii '' Daily financial update completed successfully!'')) s')
        else
          (False, print (Line (ascii ''\<newline>'' @ [0x274C] @ ascii '' Failed to create daily update'')) s'))"

text \<open>
  \<^verbatim>\<open>main\<close> returns a boolean, or does not return because an exception leaves it
  (\<open>Inl\<close>).
\<close>

definition main :: "world \<Rightarrow> config \<Rightarrow> state \<Rightarrow> (py_exception + bool) \<times> state" where
  "main w cfg s =
    (let s1 = main_begin w s
     in if \<not> truthy (NOTION_API_KEY cfg) then
          (Inr False, print (Line ([0x274C] @ ascii '' ERROR: NOTION_API_KEY environment variable not set'')) s1)
        else if \<not> truthy (NOTION_DATABASE_ID cfg) then
          (Inr False, print (Line ([0x274C] @ ascii '' ERROR: NOTION_DATABASE_ID environment variable not set'')) s1)
        else
          (let s2 = print (Line ([0x2705] @ ascii '' Environment variables validated'')) s1;
               (r, s3) = main_steps_1_to_3 w cfg s2
           in case r of
                Inl e \<Rightarrow> (Inl e, s3)
              | Inr content \<Rightarrow>
                  (let (success, s4) = main_step_4 w cfg content s3 in (Inr success, s4))))"

text \<open>
  The exit status of the process: \<^verbatim>\<open>exit(0 if success else 1)\<close>, and status 1 when an
  uncaught exception ends the interpreter.
\<close>

definition exit_status :: "py_exception + bool \<Rightarrow> nat" where
  "exit_status r = (case r of Inr success \<Rightarrow> (if success then 0 else 1) | Inl e \<Rightarrow> 1)"

text \<open>The script run as a program: \<^verbatim>\<open>main\<close> from a fresh state, then \<^verbatim>\<open>exit\<close>.\<close>

definition script :: "world \<Rightarrow> config \<Rightarrow> nat \<times> state" where
  "script w cfg = (let (r, s) = main w cfg initial_state in (exit_status r, s))"

section \<open>Reading a payload\<close>

text \<open>A position inside a JSON value: a path of object keys and array indices.\<close>

datatype step = Key pystr | Index nat

fun json_at :: "json \<Rightarrow> step list \<Rightarrow> json option" where
  "json_at v [] = Some v"
| "json_at (JObj kvs) (Key k # path) =
     (case map_of kvs k of None \<Rightarrow> None | Some v \<Rightarrow> json_at v path)"
| "json_at (JArr xs) (Index i # path) =
     (if i < length xs then json_at (xs ! i) path else None)"
| "json_at v (p # path) = None"

section \<open>Terms of the statements\<close>

text \<open>
  Where the payload of the record-create request keeps the content block, the category
  label and the key-event count.
\<close>

definition content_block_path :: "step list" where
  "content_block_path =
    [Key (ascii ''children''), Index 0, Key (ascii ''paragraph''), Key (ascii ''rich_text''),
     Index 0, Key (ascii ''text''), Key (ascii ''content'')]"

definition sentiment_path :: "step list" where
  "sentiment_path =
    [Key (ascii ''properties''), Key (ascii ''Market Sentiment''), Key (ascii ''select''),
     Key (ascii ''name'')]"

definition key_events_path :: "step list" where
  "key_events_path = [Key (ascii ''properties''), Key (ascii ''Key Events''), Key (ascii ''number'')]"

text \<open>
  What one search query adds to the accumulated sequence, and what it prints, as a
  function of what the network did with its request.
\<close>

definition query_results :: "py_exception + response \<Rightarrow> json list" where
  "query_results outcome =
    (case outcome of
       Inl e \<Rightarrow> []
     | Inr response \<Rightarrow> (case search_response response [] of Inl e \<Rightarrow> [] | Inr items \<Rightarrow> items))"

definition query_log :: "py_exception + response \<Rightarrow> console_line list" where
  "query_log outcome =
    (case outcome of
       Inl e \<Rightarrow> [LineExc (ascii ''Error searching with Serper: '') e]
     | Inr response \<Rightarrow>
         (case search_response response [] of
            Inl e \<Rightarrow> [LineExc (ascii ''Error searching with Serper: '') e]
          | Inr items \<Rightarrow> []))"

text \<open>
  What the network does with the requests of the search loop, in the order of the
  queries; \<open>n\<close> counts the requests sent before.
\<close>

fun loop_outcomes :: "world \<Rightarrow> pystr \<Rightarrow> nat \<Rightarrow> pystr list \<Rightarrow> (py_exception + response) list" where
  "loop_outcomes w key n [] = []"
| "loop_outcomes w key n (query # queries) =
     net w n (serper_request key query) # loop_outcomes w key (Suc n) queries"

definition search_outcomes :: "world \<Rightarrow> pystr \<Rightarrow> state \<Rightarrow> (py_exception + response) list" where
  "search_outcomes w key s =
     loop_outcomes w key (length (requests s))
       (search_queries (strftime ''%Y-%m-%d'' (clock w (clock_reads s))))"

text \<open>The values of a run that reaches \<^verbatim>\<open>create_notion_page\<close> in state \<open>s\<close>.\<close>

definition page_title_at :: "world \<Rightarrow> state \<Rightarrow> pystr" where
  "page_title_at w s =
     ascii ''Financial Intelligence - '' @ strftime ''%B %d, %Y'' (clock w (clock_reads s))"

definition create_request :: "world \<Rightarrow> config \<Rightarrow> pystr \<Rightarrow> state \<Rightarrow> request" where
  "create_request w cfg content s =
     notion_request cfg
       (page_data cfg (page_title_at w s) (strftime ''%Y-%m-%d'' (clock w (clock_reads s))) content)"

definition is_dict :: "json \<Rightarrow> bool" where
  "is_dict v = (case v of JObj kvs \<Rightarrow> True | _ \<Rightarrow> False)"

text \<open>The dates that the composer writes into a document composed in state \<open>s\<close>.\<close>

definition headline_date :: "world \<Rightarrow> state \<Rightarrow> pystr" where
  "headline_date w s = strftime ''%B %d, %Y'' (clock w (clock_reads s))"

definition generated_stamp :: "world \<Rightarrow> state \<Rightarrow> pystr" where
  "generated_stamp w s = strftime ''%Y-%m-%d %H:%M UTC'' (clock w (Suc (clock_reads s)))"

definition bullet_separator :: pystr where
  "bullet_separator = ascii ''\<newline>\<newline>''"

text \<open>The news sequence that \<^verbatim>\<open>main\<close>, started in state \<open>s\<close>, fetches in step 1.\<close>

definition validated_line :: console_line where
  "validated_line = Line ([0x2705] @ ascii '' Environment variables validated'')"

definition fetching_line :: console_line where
  "fetching_line = Line (ascii ''\<newline>'' @ [0x1F4F0] @ ascii '' Fetching financial news...'')"

definition fetched_news :: "world \<Rightarrow> config \<Rightarrow> state \<Rightarrow> json list" where
  "fetched_news w cfg s =
     fst (search_financial_news w cfg (print fetching_line (print validated_line (main_begin w s))))"

text \<open>How often \<open>needle\<close> occurs in a string, counting every position where it starts.\<close>

fun occurrences :: "pystr \<Rightarrow> pystr \<Rightarrow> nat" where
  "occurrences needle [] = 0"
| "occurrences needle (h # hs) =
     (if starts_with needle (h # hs) then 1 else 0) + occurrences needle hs"

text \<open>The same for what the composer returns; an exception has no text.\<close>

definition occurrences_in_output :: "pystr \<Rightarrow> py_exception + pystr \<Rightarrow> nat" where
  "occurrences_in_output needle r = (case r of Inl e \<Rightarrow> 0 | Inr doc \<Rightarrow> occurrences needle doc)"

text \<open>
  A news item as the data model describes it: a dict that holds a string under
  \<^verbatim>\<open>title\<close> and a string under \<^verbatim>\<open>snippet\<close>.
\<close>

fun is_text :: "json option \<Rightarrow> bool" where
  "is_text (Some (JStr s)) = True"
| "is_text v = False"

definition has_title_and_snippet :: "json \<Rightarrow> bool" where
  "has_title_and_snippet v =
    (case v of
       JObj kvs \<Rightarrow> is_text (map_of kvs (ascii ''title'')) \<and> is_text (map_of kvs (ascii ''snippet''))
     | _ \<Rightarrow> False)"

subsection \<open>Sample inputs\<close>

definition sample_time :: datetime where
  "sample_time = \<lparr>year = 2026, month = 11, day = 6, hour = 7, minute = 5, second = 9\<rparr>"

definition sample_config :: config where
  "sample_config =
    \<lparr>NOTION_API_KEY = Some (ascii ''secret''), NOTION_DATABASE_ID = Some (ascii ''db1''),
     SERPER_API_KEY = Some (ascii ''serper'')\<rparr>"

text \<open>A network that is down: every request raises.\<close>

definition world_offline :: world where
  "world_offline =
    \<lparr>clock = (\<lambda>n. sample_time),
     net = (\<lambda>n req. Inl (RequestException (ascii ''connection refused''))),
     str_of = (\<lambda>v. ascii ''?'')\<rparr>"

definition news_entry :: "string \<Rightarrow> string \<Rightarrow> json" where
  "news_entry t d = JObj [(ascii ''title'', JStr (ascii t)), (ascii ''snippet'', JStr (ascii d))]"

definition response_ok :: "json \<Rightarrow> response" where
  "response_ok data = \<lparr>status_code = 200, json_body = Some data, body_text = []\<rparr>"

definition response_500 :: response where
  "response_500 = \<lparr>status_code = 500, json_body = None, body_text = ascii ''Internal Server Error''\<rparr>"

text \<open>Every request is answered with status 500.\<close>

definition world_500 :: world where
  "world_500 =
    \<lparr>clock = (\<lambda>n. sample_time), net = (\<lambda>n req. Inr response_500), str_of = (\<lambda>v. ascii ''?'')\<rparr>"

text \<open>
  The first search returns four entries, the second fails with status 500, the third
  returns one entry; the request after them creates the record.
\<close>

definition world_mixed :: world where
  "world_mixed =
    \<lparr>clock = (\<lambda>n. sample_time),
     net = (\<lambda>n req.
        if n = 0 then Inr (response_ok (JObj [(ascii ''organic'',
                 JArr [news_entry ''a1'' ''x'', news_entry ''a2'' ''x'', news_entry ''a3'' ''x'',
                       news_entry ''a4'' ''x''])]))
        else if n = 1 then Inr response_500
        else if n = 2 then Inr (response_ok (JObj [(ascii ''organic'', JArr [news_entry ''c1'' ''y''])]))
        else Inr (response_ok (JObj [(ascii ''url'', JStr (ascii ''https://www.notion.so/p1''))]))),
     str_of = (\<lambda>v. ascii ''?'')\<rparr>"

text \<open>Every request is answered with status 200 and a JSON object without \<^verbatim>\<open>organic\<close>.\<close>

definition world_no_organic :: world where
  "world_no_organic =
    \<lparr>clock = (\<lambda>n. sample_time),
     net = (\<lambda>n req. Inr (response_ok (JObj [(ascii ''credits'', JNum 1)]))),
     str_of = (\<lambda>v. ascii ''?'')\<rparr>"

text \<open>Every request is answered with status 200 and a body that is not JSON.\<close>

definition response_200_html :: response where
  "response_200_html = \<lparr>status_code = 200, json_body = None, body_text = ascii ''<html>OK</html>''\<rparr>"

definition world_200_html :: world where
  "world_200_html =
    \<lparr>clock = (\<lambda>n. sample_time), net = (\<lambda>n req. Inr response_200_html), str_of = (\<lambda>v. ascii ''?'')\<rparr>"

text \<open>The search provider answers with an \<^verbatim>\<open>organic\<close> array of strings.\<close>

definition world_strings :: world where
  "world_strings =
    \<lparr>clock = (\<lambda>n. sample_time),
     net = (\<lambda>n req. Inr (response_ok (JObj [(ascii ''organic'', JArr [JStr (ascii ''headline'')])]))),
     str_of = (\<lambda>v. ascii ''?'')\<rparr>"

text \<open>A news item whose snippet is the text of the fallback sentence.\<close>

definition item_quoting_fallback :: json where
  "item_quoting_fallback =
     JObj [(ascii ''title'', JStr (ascii ''Note'')),
           (ascii ''snippet'', JStr (ascii ''Unable to fetch current news. Please check API configurations.''))]"

section \<open>The publisher's payload\<close>

lemma create_notion_page_requests:
  "requests (snd (create_notion_page w cfg content s)) = requests s @ [create_request w cfg content s]"
  by (simp add: create_notion_page_def create_attempt_def requests_post_def datetime_now_def
      report_created_def report_rejected_def print_def create_request_def page_title_at_def
      Let_def split: sum.splits prod.splits)

text \<open>
  Claim C2. For every document string, the publisher sends one request, and the content
  block of its payload is the first 2000 characters of the document when the document is
  longer than 2000 characters (then the block has exactly 2000 characters), and the
  document itself when it has at most 2000 characters.
\<close>

theorem content_block_is_first_2000:
  "requests (snd (create_notion_page w cfg content s)) = requests s @ [create_request w cfg content s]
   \<and> json_at (body (create_request w cfg content s)) content_block_path =
       Some (JStr (if 2000 < length content then take 2000 content else content))
   \<and> (2000 < length content \<longrightarrow> length (take 2000 content) = 2000)"
  by (simp add: create_notion_page_requests create_request_def notion_request_def page_data_def
      content_block_path_def ascii_def)

theorem content_block_is_first_2000_witness:
  "json_at (body (create_request world_offline sample_config (replicate 1999 65 @ [66, 67]) initial_state))
      content_block_path = Some (JStr (replicate 1999 65 @ [66]))
   \<and> json_at (body (create_request world_offline sample_config [72, 105] initial_state))
      content_block_path = Some (JStr [72, 105])"
  using content_block_is_first_2000 [of world_offline sample_config "replicate 1999 65 @ [66, 67]" initial_state]
    content_block_is_first_2000 [of world_offline sample_config "[72, 105]" initial_state]
  by simp

text \<open>
  Claim C8. Whatever the document (and so whatever news sequence it was composed from),
  the payload of the one request that the publisher sends carries the category label
  "Mixed" and the number 5 as its key-event property.
\<close>

theorem payload_has_fixed_label_and_count:
  "requests (snd (create_notion_page w cfg content s)) = requests s @ [create_request w cfg content s]
   \<and> json_at (body (create_request w cfg content s)) sentiment_path = Some (JStr (ascii ''Mixed''))
   \<and> json_at (body (create_request w cfg content s)) key_events_path = Some (JNum 5)"
  by (simp add: create_notion_page_requests create_request_def notion_request_def page_data_def
      sentiment_path_def key_events_path_def ascii_def)

section \<open>Missing configuration\<close>

lemma main_begin_requests: "requests (main_begin w s) = requests s"
  by (simp add: main_begin_def print_def datetime_now_def Let_def)

text \<open>
  Claim C1. If the API key of the destination database or the identifier of the
  destination collection is absent from the environment, \<^verbatim>\<open>main\<close> returns
  \<^verbatim>\<open>False\<close> and has sent no request; the process then exits with status 1, and its
  log of requests is empty.
\<close>

theorem main_missing_config:
  assumes "NOTION_API_KEY cfg = None \<or> NOTION_DATABASE_ID cfg = None"
  shows "fst (main w cfg s) = Inr False \<and> requests (snd (main w cfg s)) = requests s
         \<and> fst (script w cfg) = 1 \<and> requests (snd (script w cfg)) = []"
  using assms
  by (auto simp: main_def script_def exit_status_def truthy_def print_def main_begin_requests
      initial_state_def Let_def split: prod.splits)

theorem main_missing_config_witness:
  "NOTION_DATABASE_ID (sample_config\<lparr>NOTION_DATABASE_ID := None\<rparr>) = None
   \<and> fst (main world_offline (sample_config\<lparr>NOTION_DATABASE_ID := None\<rparr>) initial_state) = Inr False
   \<and> fst (script world_offline (sample_config\<lparr>NOTION_DATABASE_ID := None\<rparr>)) = 1
   \<and> requests (snd (script world_offline (sample_config\<lparr>NOTION_DATABASE_ID := None\<rparr>))) = []"
  using main_missing_config [of "sample_config\<lparr>NOTION_DATABASE_ID := None\<rparr>" world_offline initial_state]
  by simp

section \<open>The fetcher\<close>

text \<open>
  With a provider key, each round of the loop sends one request, appends what the outcome
  contributes and prints what the outcome makes it print; so does the whole loop, in the
  order of the queries.
\<close>

lemma py_extend_acc:
  "py_extend acc v = (case py_extend [] v of Inl e \<Rightarrow> Inl e | Inr xs \<Rightarrow> Inr (acc @ xs))"
  by (cases v) simp_all

lemma search_response_acc:
  "search_response response acc =
     (case search_response response [] of Inl e \<Rightarrow> Inl e | Inr xs \<Rightarrow> Inr (acc @ xs))"
proof -
  have ext: "py_extend acc v = (case py_extend [] v of Inl e \<Rightarrow> Inl e | Inr xs \<Rightarrow> Inr (acc @ xs))"
    for v by (rule py_extend_acc)
  show ?thesis
    unfolding search_response_def
    by (simp add: ext [symmetric] split: sum.splits) (simp add: ext)
qed

lemma search_query_with_key:
  assumes "SERPER_API_KEY cfg = Some key" and "key \<noteq> []"
  shows "search_query w cfg query acc s =
    (acc @ query_results (net w (length (requests s)) (serper_request key query)),
     s\<lparr>console := console s @ query_log (net w (length (requests s)) (serper_request key query)),
       requests := requests s @ [serper_request key query]\<rparr>)"
  using assms
  by (simp add: search_query_def search_attempt_def requests_post_def query_results_def
      query_log_def print_def search_response_acc [of _ acc] split: sum.splits)

lemma search_loop_with_key:
  assumes "SERPER_API_KEY cfg = Some key" and "key \<noteq> []"
  shows "search_loop w cfg queries acc s =
    (acc @ concat (map query_results (loop_outcomes w key (length (requests s)) queries)),
     s\<lparr>console := console s @ concat (map query_log (loop_outcomes w key (length (requests s)) queries)),
       requests := requests s @ map (serper_request key) queries\<rparr>)"
proof (induction queries arbitrary: acc s)
  case Nil
  show ?case by simp
next
  case (Cons query queries)
  show ?case
    by (simp add: search_query_with_key [OF assms] Cons.IH)
qed

lemma search_financial_news_with_key:
  assumes "SERPER_API_KEY cfg = Some key" and "key \<noteq> []"
  shows "search_financial_news w cfg s =
    (concat (map query_results (search_outcomes w key s)),
     s\<lparr>console := console s @ concat (map query_log (search_outcomes w key s)),
       requests := requests s @ map (serper_request key)
          (search_queries (strftime ''%Y-%m-%d'' (clock w (clock_reads s)))),
       clock_reads := Suc (clock_reads s)\<rparr>)"
  by (simp add: search_financial_news_def datetime_now_def search_loop_with_key [OF assms]
      search_outcomes_def Let_def)

text \<open>Without a provider key no request is sent: each query prints its skip notice.\<close>

lemma search_loop_without_key:
  assumes "\<not> truthy (SERPER_API_KEY cfg)"
  shows "search_loop w cfg queries acc s =
    (acc, s\<lparr>console := console s @
        map (\<lambda>query. Line (ascii ''No Serper API key found. Skipping search: '' @ query)) queries\<rparr>)"
  using assms
  by (induction queries arbitrary: s)
    (auto simp: search_query_def skip_search_def print_def truthy_def split: option.splits)

lemma search_financial_news_without_key:
  assumes "\<not> truthy (SERPER_API_KEY cfg)"
  shows "fst (search_financial_news w cfg s) = []"
    and "requests (snd (search_financial_news w cfg s)) = requests s"
  by (simp_all add: search_financial_news_def datetime_now_def Let_def
      search_loop_without_key [OF assms])

lemma length_py_extend:
  "py_slice_to v n = Inr v' \<Longrightarrow> py_extend [] v' = Inr xs \<Longrightarrow> length xs \<le> n"
  by (cases v) auto

lemma length_query_results: "length (query_results outcome) \<le> 3"
  by (auto simp: query_results_def search_response_def split: sum.splits if_splits dest: length_py_extend)

lemma query_results_organic:
  assumes "status_code response = 200" and "json_body response = Some (JObj kvs)"
    and "map_of kvs (ascii ''organic'') = Some (JArr entries)"
  shows "query_results (Inr response) = take 3 entries"
proof -
  from assms(3) have "ascii ''organic'' \<in> fst ` set kvs"
    by (metis domI dom_map_of_conv_image_fst)
  with assms show ?thesis
  by (simp add: query_results_def search_response_def response_json_def)
qed

lemma query_results_failed:
  "query_results (Inl e) = []" "status_code response \<noteq> 200 \<Longrightarrow> query_results (Inr response) = []"
  by (simp_all add: query_results_def search_response_def)

lemma query_log_failed:
  "query_log (Inl e) = [LineExc (ascii ''Error searching with Serper: '') e]"
  "status_code response \<noteq> 200 \<Longrightarrow> query_log (Inr response) = []"
  by (simp_all add: query_log_def search_response_def)

lemma search_outcomes_three:
  "search_outcomes w key s =
    [net w (length (requests s)) (serper_request key
        (ascii ''major financial news worldwide '' @ strftime ''%Y-%m-%d'' (clock w (clock_reads s)) @ ascii '' stock market'')),
     net w (length (requests s) + 1) (serper_request key
        (ascii ''market movers stocks '' @ strftime ''%Y-%m-%d'' (clock w (clock_reads s)))),
     net w (length (requests s) + 2) (serper_request key
        (ascii ''investment opportunities '' @ strftime ''%Y-%m-%d'' (clock w (clock_reads s)) @ ascii '' emerging markets''))]"
  by (simp add: search_outcomes_def search_queries_def)

lemma sample_config_key:
  "SERPER_API_KEY sample_config = Some (ascii ''serper'')" "ascii ''serper'' \<noteq> []"
  by (simp_all add: sample_config_def ascii_def)

text \<open>
  With a provider key, the fetcher sends its three requests whatever their outcomes: a
  failed query neither stops the loop nor is retried, and every exception raised inside
  the \<^verbatim>\<open>try\<close> block is caught there. The returned sequence is the concatenation of
  what the three outcomes contribute; a transport failure and a status other than 200
  contribute nothing, and a transport failure prints one line.
\<close>

lemma search_continues_after_failures:
  assumes "SERPER_API_KEY cfg = Some key" and "key \<noteq> []"
  shows "fst (search_financial_news w cfg s) = concat (map query_results (search_outcomes w key s))"
    and "requests (snd (search_financial_news w cfg s)) =
        requests s @ map (serper_request key)
          (search_queries (strftime ''%Y-%m-%d'' (clock w (clock_reads s))))"
    and "length (search_outcomes w key s) = 3"
    and "query_results (Inl e) = []"
    and "query_log (Inl e) = [LineExc (ascii ''Error searching with Serper: '') e]"
    and "status_code response \<noteq> 200 \<Longrightarrow> query_results (Inr response) = []"
  by (simp_all add: search_financial_news_with_key [OF assms] query_results_failed query_log_failed
      search_outcomes_three)

text \<open>
  Claim C3 fails on the code. When the provider answers a query with status 500, the
  fetcher goes on (all three requests are sent) but prints nothing at all: the test
  \<^verbatim>\<open>response.status_code == 200\<close> has no \<^verbatim>\<open>else\<close>, while the
  \<^verbatim>\<open>except\<close> branch of the same \<^verbatim>\<open>try\<close>, the branch without a provider key
  and the same test in the publisher each print a line.
\<close>

theorem search_non200_is_not_logged:
  "net world_500 0 (serper_request (ascii ''serper'')
      (ascii ''major financial news worldwide 2026-11-06 stock market'')) = Inr response_500
   \<and> status_code response_500 \<noteq> 200
   \<and> console (snd (search_financial_news world_500 sample_config initial_state)) = []
   \<and> length (requests (snd (search_financial_news world_500 sample_config initial_state))) = 3"
  by (simp add: search_financial_news_with_key [OF sample_config_key]
      search_outcomes_three world_500_def response_500_def query_log_def search_response_def
      initial_state_def search_queries_def)

lemma list_all_take: "list_all P xs \<Longrightarrow> list_all P (take n xs)"
  by (auto simp: list_all_iff dest: in_set_takeD)

text \<open>
  Claim C9, as amended. With a provider key, the returned sequence is the concatenation,
  in the order of the three queries, of what each outcome contributes. No outcome
  contributes more than 3 entries. A response with status 200 whose JSON object has an
  \<^verbatim>\<open>organic\<close> array contributes the first 3 entries of that array, as the provider
  sent them and in the provider's order; the fetcher does not look into them, so they
  consist of a title and a snippet when the provider's entries do.
\<close>

theorem search_takes_top_three_in_order:
  assumes "SERPER_API_KEY cfg = Some key" and "key \<noteq> []"
  shows "fst (search_financial_news w cfg s) = concat (map query_results (search_outcomes w key s))
    \<and> search_outcomes w key s =
        map (\<lambda>i. net w (length (requests s) + i)
                 (serper_request key (search_queries (strftime ''%Y-%m-%d'' (clock w (clock_reads s))) ! i)))
          [0, 1, 2]
    \<and> (\<forall>outcome. length (query_results outcome) \<le> 3)
    \<and> (\<forall>response kvs entries.
          status_code response = 200 \<and> json_body response = Some (JObj kvs)
          \<and> map_of kvs (ascii ''organic'') = Some (JArr entries)
          \<longrightarrow> query_results (Inr response) = take 3 entries
              \<and> (list_all has_title_and_snippet entries
                   \<longrightarrow> list_all has_title_and_snippet (query_results (Inr response))))"
  by (simp add: search_financial_news_with_key [OF assms] length_query_results
      query_results_organic search_outcomes_three search_queries_def list_all_take)

theorem search_takes_top_three_in_order_witness:
  "fst (search_financial_news world_mixed sample_config initial_state) =
     take 3 [news_entry ''a1'' ''x'', news_entry ''a2'' ''x'', news_entry ''a3'' ''x'', news_entry ''a4'' ''x'']
     @ [] @ take 3 [news_entry ''c1'' ''y'']"
  using search_takes_top_three_in_order [of sample_config "ascii ''serper''" world_mixed initial_state]
  by (simp add: sample_config_def ascii_def world_mixed_def response_ok_def
      response_500_def query_results_def search_response_def response_json_def
      initial_state_def search_queries_def)

text \<open>
  The claim as stated fails: the provider answers each query with status 200 and an
  \<^verbatim>\<open>organic\<close> array that holds one string; the fetcher returns the three strings,
  none of which consists of a title and a snippet.
\<close>

theorem search_returns_unchecked_entries:
  "fst (search_financial_news world_strings sample_config initial_state) =
     [JStr (ascii ''headline''), JStr (ascii ''headline''), JStr (ascii ''headline'')]
   \<and> \<not> has_title_and_snippet (JStr (ascii ''headline''))"
proof -
  have q: "query_results (Inr (response_ok (JObj [(ascii ''organic'', JArr [JStr (ascii ''headline'')])])))
     = [JStr (ascii ''headline'')]"
    by (simp add: query_results_def search_response_def response_ok_def response_json_def ascii_def)
  have n: "net world_strings k req = Inr (response_ok (JObj [(ascii ''organic'', JArr [JStr (ascii ''headline'')])]))"
    for k req by (simp add: world_strings_def)
  show ?thesis
    by (simp add: search_financial_news_with_key [OF sample_config_key] search_outcomes_three n q
        has_title_and_snippet_def)
qed

text \<open>
  Claim C10. When a search request returns status 200 and the JSON of the response has no
  \<^verbatim>\<open>organic\<close> member, that round of the loop appends nothing, prints nothing and
  raises nothing: only the request is recorded, and the loop goes on with the next query.
\<close>

theorem search_without_organic_field:
  assumes "SERPER_API_KEY cfg = Some key" and "key \<noteq> []"
    and "net w (length (requests s)) (serper_request key query) = Inr response"
    and "status_code response = 200"
    and "json_body response = Some data"
    and "py_contains (ascii ''organic'') data = Inr False"
  shows "search_query w cfg query all_results s =
           (all_results, s\<lparr>requests := requests s @ [serper_request key query]\<rparr>)
    \<and> search_loop w cfg (query # queries) all_results s =
        search_loop w cfg queries all_results (s\<lparr>requests := requests s @ [serper_request key query]\<rparr>)"
  using assms
  by (simp add: search_query_def search_attempt_def requests_post_def search_response_def
      response_json_def)

theorem search_without_organic_field_witness:
  "search_query world_no_organic sample_config (ascii ''q1'') [JNull] initial_state =
     ([JNull], initial_state\<lparr>requests := requests initial_state @ [serper_request (ascii ''serper'') (ascii ''q1'')]\<rparr>)
   \<and> search_loop world_no_organic sample_config [ascii ''q1'', ascii ''q2''] [JNull] initial_state =
       search_loop world_no_organic sample_config [ascii ''q2''] [JNull]
         (initial_state\<lparr>requests := requests initial_state @ [serper_request (ascii ''serper'') (ascii ''q1'')]\<rparr>)"
  using search_without_organic_field
    [where cfg = sample_config and key = "ascii ''serper''" and w = world_no_organic
       and s = initial_state and query = "ascii ''q1''"
       and response = "response_ok (JObj [(ascii ''credits'', JNum 1)])"
       and data = "JObj [(ascii ''credits'', JNum 1)]"
       and all_results = "[JNull]" and queries = "[ascii ''q2'']"]
  by (simp add: sample_config_key world_no_organic_def response_ok_def ascii_def)

section \<open>The composer\<close>

lemma render_items_length: "render_items w items = Inr bullets \<Longrightarrow> length bullets = length items"
  by (induction items arbitrary: bullets) (auto split: sum.splits)

lemma generate_Inr:
  assumes "fst (generate_investment_insights w news s) = Inr doc"
  shows "\<exists>bullets. render_items w (take 5 news) = Inr bullets
     \<and> doc = document (headline_date w s) (news_section (join bullet_separator bullets))
               (length news) (generated_stamp w s)"
  using assms
  by (auto simp: generate_investment_insights_def datetime_now_def Let_def headline_date_def
      generated_stamp_def bullet_separator_def split: sum.splits)

text \<open>
  Claim C6. Whenever the composer returns a document, the news section of that document
  is built from the bullets of the first five items only: their number is the smaller of
  5 and the length of the input, so never more than 5, also for 100 input items.
\<close>

theorem at_most_five_bullets:
  assumes "fst (generate_investment_insights w news s) = Inr doc"
  shows "\<exists>bullets. render_items w (take 5 news) = Inr bullets
     \<and> length bullets = min 5 (length news) \<and> length bullets \<le> 5
     \<and> doc = document (headline_date w s) (news_section (join bullet_separator bullets))
               (length news) (generated_stamp w s)"
proof -
  from generate_Inr [OF assms] obtain bullets where
    b: "render_items w (take 5 news) = Inr bullets"
    and d: "doc = document (headline_date w s) (news_section (join bullet_separator bullets))
               (length news) (generated_stamp w s)"
    by blast
  from render_items_length [OF b] have "length bullets = min 5 (length news)"
    by (simp add: min.commute)
  with b d show ?thesis by auto
qed

lemma render_item_entry:
  "render_item w (news_entry t d) = Inr (ascii ''**'' @ ascii t @ ascii ''**: '' @ ascii d)"
  by (simp add: render_item_def news_entry_def format_value_def ascii_def)

lemma render_items_replicate:
  "render_item w item = Inr b \<Longrightarrow> render_items w (replicate n item) = Inr (replicate n b)"
  by (induction n) simp_all

theorem at_most_five_bullets_witness:
  "\<exists>bullets. render_items world_offline (take 5 (replicate 100 (news_entry ''t'' ''d''))) = Inr bullets
     \<and> length bullets = min 5 (length (replicate 100 (news_entry ''t'' ''d''))) \<and> length bullets \<le> 5
     \<and> document (headline_date world_offline initial_state)
          (news_section (join bullet_separator (replicate 5 (ascii ''**t**: d''))))
          100 (generated_stamp world_offline initial_state)
       = document (headline_date world_offline initial_state)
          (news_section (join bullet_separator bullets))
          (length (replicate 100 (news_entry ''t'' ''d''))) (generated_stamp world_offline initial_state)"
proof -
  have "render_items world_offline (replicate 5 (news_entry ''t'' ''d'')) = Inr (replicate 5 (ascii ''**t**: d''))"
    by (rule render_items_replicate) (simp add: render_item_entry ascii_def)
  then have "fst (generate_investment_insights world_offline (replicate 100 (news_entry ''t'' ''d'')) initial_state)
     = Inr (document (headline_date world_offline initial_state)
          (news_section (join bullet_separator (replicate 5 (ascii ''**t**: d''))))
          100 (generated_stamp world_offline initial_state))"
    by (simp add: generate_investment_insights_def datetime_now_def Let_def headline_date_def
      generated_stamp_def bullet_separator_def)
  from at_most_five_bullets [OF this] show ?thesis .
qed

lemma join_Cons: "\<exists>rest. join sep (b # bs) = b @ rest"
  by (cases bs) auto

text \<open>
  Counting the fallback sentence in a document. The sentence begins with \<open>U\<close> and holds
  no line break. The template has no \<open>U\<close> outside the news section except in \<open>UTC\<close> at
  its very end, and dates are digits, month names and punctuation, so every occurrence of
  the sentence in a document lies inside the news section.
\<close>

lemma occurrences_skip:
  "c \<notin> set xs \<Longrightarrow> occurrences (c # rest) (xs @ ys) = occurrences (c # rest) ys"
  by (induction xs) auto

lemma starts_with_stop:
  "c \<notin> set needle \<Longrightarrow> starts_with needle (xs @ c # ys) = starts_with needle xs"
  by (induction needle xs rule: starts_with.induct) auto

lemma occurrences_stop:
  "c \<notin> set needle \<Longrightarrow> needle \<noteq> [] \<Longrightarrow>
     occurrences needle (xs @ c # ys) = occurrences needle xs + occurrences needle ys"
proof (induction xs)
  case Nil
  then show ?case by (cases needle) auto
next
  case (Cons x xs)
  from Cons.prems(1) have "starts_with needle ((x # xs) @ c # ys) = starts_with needle (x # xs)"
    by (rule starts_with_stop)
  with Cons show ?case by simp
qed

lemma str_of_nat_digits: "c \<in> set (str_of_nat n) \<Longrightarrow> 48 \<le> c \<and> c \<le> 57"
proof (induction n rule: str_of_nat.induct)
  case (1 n)
  show ?case
  proof (cases "n < 10")
    case True
    with "1.prems" show ?thesis by (simp add: str_of_nat.simps [of n])
  next
    case False
    with "1.prems" have "c \<in> set (str_of_nat (n div 10)) \<or> c = 48 + n mod 10"
      by (auto simp: str_of_nat.simps [of n])
    with False "1.IH" show ?thesis by auto
  qed
qed

lemma zero_pad_digits: "c \<in> set (zero_pad k n) \<Longrightarrow> 48 \<le> c \<and> c \<le> 57"
  by (auto simp: zero_pad_def dest: str_of_nat_digits)

lemma no_U_in_digits: "85 \<notin> set (zero_pad k n)" "85 \<notin> set (str_of_nat n)"
  using zero_pad_digits [of 85 k n] str_of_nat_digits [of 85 n] by auto

lemma no_U_in_month: "85 \<notin> set (month_name m)"
  by (simp add: month_name_def ascii_def)

lemma no_U_in_headline: "85 \<notin> set (strftime ''%B %d, %Y'' t)"
  by (simp add: strftime.simps directive_def no_U_in_digits no_U_in_month)

lemma stamp_split:
  "\<exists>p. strftime ''%Y-%m-%d %H:%M UTC'' t = p @ [85, 84, 67] \<and> 85 \<notin> set p"
proof -
  have "strftime ''%Y-%m-%d %H:%M UTC'' t =
     (zero_pad 4 (year t) @ 45 # zero_pad 2 (month t) @ 45 # zero_pad 2 (day t) @ 32 #
      zero_pad 2 (hour t) @ 58 # zero_pad 2 (minute t) @ [32]) @ [85, 84, 67]"
    by (simp add: strftime.simps directive_def)
  moreover have "85 \<notin> set (zero_pad 4 (year t) @ 45 # zero_pad 2 (month t) @ 45 # zero_pad 2 (day t) @ 32 #
      zero_pad 2 (hour t) @ 58 # zero_pad 2 (minute t) @ [32])"
    by (simp add: no_U_in_digits)
  ultimately show ?thesis by blast
qed

lemma no_U_in_playbook: "85 \<notin> set playbook"
  by (simp add: playbook_def ascii_def)

lemma concat_two: "concat (a # b # rest) = a @ b @ concat rest"
  by simp

lemma playbook_head: "\<exists>rest. playbook = ascii ''\<newline>---\<newline>'' @ rest"
proof -
  have "\<exists>rest. playbook = ascii ''\<newline>'' @ ascii ''---\<newline>'' @ rest"
    unfolding playbook_def by (rule exI, rule concat_two)
  then show ?thesis by (auto simp: ascii_def)
qed

lemma document_head:
  "\<exists>rest. document today section n generated =
     ascii ''# Market Overview - '' @ today
     @ ascii ''\<newline>\<newline>## Key Financial Events Worldwide\<newline>\<newline>''
     @ section @ ascii ''\<newline>\<newline>---\<newline>'' @ rest"
proof -
  from playbook_head obtain rest where "playbook = ascii ''\<newline>---\<newline>'' @ rest" ..
  then have "document today section n generated =
     ascii ''# Market Overview - '' @ today
     @ ascii ''\<newline>\<newline>## Key Financial Events Worldwide\<newline>\<newline>''
     @ section @ ascii ''\<newline>\<newline>---\<newline>''
     @ (rest @ ascii ''**Data Sources**: '' @ str_of_nat n @ ascii '' news sources analyzed\<newline>''
        @ ascii ''**Generated**: '' @ generated @ ascii ''\<newline>'')"
    by (simp add: document_def ascii_def)
  then show ?thesis ..
qed

lemma document_occurrences:
  assumes "10 \<notin> set r" and "85 \<notin> set today"
    and "generated = p @ [85, 84, 67]" and "85 \<notin> set p"
  shows "occurrences (85 # 110 # r) (document today section n generated) =
         occurrences (85 # 110 # r) section"
proof -
  define A where "A = ascii ''# Market Overview - '' @ today
     @ ascii ''\<newline>\<newline>## Key Financial Events Worldwide\<newline>\<newline>''"
  define F where "F = playbook @ ascii ''**Data Sources**: '' @ str_of_nat n
     @ ascii '' news sources analyzed\<newline>**Generated**: '' @ p"
  have d: "document today section n generated = A @ section @ 10 # (F @ [85, 84, 67, 10])"
    by (simp add: document_def A_def F_def assms(3) ascii_def)
  have a: "85 \<notin> set A"
    by (simp add: A_def assms(2) ascii_def)
  have f: "85 \<notin> set F"
    by (simp add: F_def no_U_in_playbook no_U_in_digits assms(4) ascii_def)
  have "occurrences (85 # 110 # r) (A @ section @ 10 # (F @ [85, 84, 67, 10])) =
        occurrences (85 # 110 # r) (section @ 10 # (F @ [85, 84, 67, 10]))"
    using a by (rule occurrences_skip)
  also have "\<dots> = occurrences (85 # 110 # r) section + occurrences (85 # 110 # r) (F @ [85, 84, 67, 10])"
    using assms(1) by (simp add: occurrences_stop)
  also have "occurrences (85 # 110 # r) (F @ [85, 84, 67, 10]) = occurrences (85 # 110 # r) [85, 84, 67, 10]"
    using f by (rule occurrences_skip)
  also have "\<dots> = 0" by simp
  finally show ?thesis by (simp add: d)
qed

lemma generated_document_occurrences:
  assumes "10 \<notin> set r"
  shows "occurrences (85 # 110 # r) (document (headline_date w s) section n (generated_stamp w s)) =
         occurrences (85 # 110 # r) section"
proof -
  from stamp_split obtain p where "generated_stamp w s = p @ [85, 84, 67]" and "85 \<notin> set p"
    unfolding generated_stamp_def by blast
  with assms no_U_in_headline show ?thesis
    unfolding headline_date_def by (intro document_occurrences) auto
qed

lemma fallback_literal:
  "ascii ''Unable to fetch current news. Please check API configurations.'' =
     85 # 110 # ascii ''able to fetch current news. Please check API configurations.''"
  "10 \<notin> set (ascii ''able to fetch current news. Please check API configurations.'')"
  "occurrences (ascii ''Unable to fetch current news. Please check API configurations.'')
     (ascii ''Unable to fetch current news. Please check API configurations.'') = 1"
  by (simp_all add: ascii_def)

lemma render_item_stars:
  "render_item w item = Inr b \<Longrightarrow> \<exists>rest. b = 42 # 42 # rest"
  by (auto simp: render_item_def ascii_def split: sum.splits)

lemma join_stars:
  assumes "render_items w items = Inr bullets" and "items \<noteq> []"
  shows "\<exists>rest. join sep bullets = 42 # 42 # rest"
proof -
  from assms obtain item items' where "items = item # items'"
    by (cases items) auto
  with assms(1) obtain b bs where bs: "bullets = b # bs" and b: "render_item w item = Inr b"
    by (auto split: sum.splits)
  from render_item_stars [OF b] obtain rest where "b = 42 # 42 # rest" by blast
  with join_Cons [of sep b bs] show ?thesis
    unfolding bs by auto
qed

lemma generate_empty:
  "fst (generate_investment_insights w [] s) =
     Inr (document (headline_date w s) fallback_sentence 0 (generated_stamp w s))"
  by (simp add: generate_investment_insights_def datetime_now_def Let_def headline_date_def
      generated_stamp_def news_section_def)

lemma generate_nonempty:
  assumes "fst (generate_investment_insights w news s) = Inr doc" and "news \<noteq> []"
  shows "\<exists>bullets. render_items w (take 5 news) = Inr bullets
     \<and> starts_with (ascii ''**'') (join (ascii ''\<newline>\<newline>'') bullets)
     \<and> doc = document (headline_date w s) (join (ascii ''\<newline>\<newline>'') bullets)
               (length news) (generated_stamp w s)"
proof -
  from generate_Inr [OF assms(1)] obtain bullets where
    b: "render_items w (take 5 news) = Inr bullets"
    and d: "doc = document (headline_date w s) (news_section (join bullet_separator bullets))
               (length news) (generated_stamp w s)"
    by blast
  from assms(2) have "take 5 news \<noteq> []" by (cases news) auto
  from join_stars [OF b this, of bullet_separator] obtain rest where
    j: "join bullet_separator bullets = 42 # 42 # rest" by blast
  then have "news_section (join bullet_separator bullets) = join bullet_separator bullets"
    by (simp add: news_section_def)
  with b d j show ?thesis
    by (auto simp: bullet_separator_def ascii_def)
qed

text \<open>
  Claim C7, as amended. For the empty news sequence the composer returns a document in
  which the sentence "Unable to fetch current news. Please check API configurations."
  stands between the heading of the news section and the rule line after it, where the
  bullet list would stand, and occurs exactly once. For a non-empty news sequence, whenever
  the composer returns a document, that place holds the bullet list, which begins with
  \<open>**\<close>, and not the fallback; the sentence then occurs in the document exactly as
  often as it occurs in the bullets, that is, only where an item's own text carries it.
\<close>

theorem fallback_sentence_placement:
  "(\<exists>doc rest. fst (generate_investment_insights w [] s) = Inr doc
      \<and> doc = ascii ''# Market Overview - '' @ headline_date w s
            @ ascii ''\<newline>\<newline>## Key Financial Events Worldwide\<newline>\<newline>''
            @ ascii ''Unable to fetch current news. Please check API configurations.''
            @ ascii ''\<newline>\<newline>---\<newline>'' @ rest
      \<and> occurrences (ascii ''Unable to fetch current news. Please check API configurations.'') doc = 1)
   \<and> (news \<noteq> [] \<and> fst (generate_investment_insights w news s) = Inr doc' \<longrightarrow>
        (\<exists>bullets rest. render_items w (take 5 news) = Inr bullets
           \<and> doc' = ascii ''# Market Overview - '' @ headline_date w s
                 @ ascii ''\<newline>\<newline>## Key Financial Events Worldwide\<newline>\<newline>''
                 @ join (ascii ''\<newline>\<newline>'') bullets
                 @ ascii ''\<newline>\<newline>---\<newline>'' @ rest
           \<and> starts_with (ascii ''**'') (join (ascii ''\<newline>\<newline>'') bullets)
           \<and> occurrences (ascii ''Unable to fetch current news. Please check API configurations.'') doc' =
               occurrences (ascii ''Unable to fetch current news. Please check API configurations.'')
                 (join (ascii ''\<newline>\<newline>'') bullets)))"
proof (intro conjI impI)
  let ?S = "ascii ''Unable to fetch current news. Please check API configurations.''"
  let ?doc = "document (headline_date w s) fallback_sentence 0 (generated_stamp w s)"
  have "occurrences ?S ?doc = occurrences ?S fallback_sentence"
    unfolding fallback_literal(1) by (rule generated_document_occurrences) (rule fallback_literal(2))
  then have o: "occurrences ?S ?doc = 1"
    by (simp add: fallback_sentence_def fallback_literal(3))
  from document_head [of "headline_date w s" fallback_sentence 0 "generated_stamp w s"]
  obtain rest where "?doc = ascii ''# Market Overview - '' @ headline_date w s
            @ ascii ''\<newline>\<newline>## Key Financial Events Worldwide\<newline>\<newline>''
            @ ?S @ ascii ''\<newline>\<newline>---\<newline>'' @ rest"
    unfolding fallback_sentence_def by blast
  with o generate_empty [of w s]
  show "\<exists>doc rest. fst (generate_investment_insights w [] s) = Inr doc
      \<and> doc = ascii ''# Market Overview - '' @ headline_date w s
            @ ascii ''\<newline>\<newline>## Key Financial Events Worldwide\<newline>\<newline>''
            @ ?S @ ascii ''\<newline>\<newline>---\<newline>'' @ rest
      \<and> occurrences ?S doc = 1"
    by metis
next
  let ?S = "ascii ''Unable to fetch current news. Please check API configurations.''"
  assume a: "news \<noteq> [] \<and> fst (generate_investment_insights w news s) = Inr doc'"
  with generate_nonempty [of w news s doc'] obtain bullets where
    b: "render_items w (take 5 news) = Inr bullets"
    and st: "starts_with (ascii ''**'') (join (ascii ''\<newline>\<newline>'') bullets)"
    and d: "doc' = document (headline_date w s) (join (ascii ''\<newline>\<newline>'') bullets)
               (length news) (generated_stamp w s)"
    by blast
  have o: "occurrences ?S doc' = occurrences ?S (join (ascii ''\<newline>\<newline>'') bullets)"
    unfolding fallback_literal(1) d
    by (rule generated_document_occurrences) (rule fallback_literal(2))
  from document_head [of "headline_date w s" "join (ascii ''\<newline>\<newline>'') bullets"
      "length news" "generated_stamp w s"] d
  obtain rest where "doc' = ascii ''# Market Overview - '' @ headline_date w s
                 @ ascii ''\<newline>\<newline>## Key Financial Events Worldwide\<newline>\<newline>''
                 @ join (ascii ''\<newline>\<newline>'') bullets
                 @ ascii ''\<newline>\<newline>---\<newline>'' @ rest"
    by auto
  with b st o
  show "\<exists>bullets rest. render_items w (take 5 news) = Inr bullets
           \<and> doc' = ascii ''# Market Overview - '' @ headline_date w s
                 @ ascii ''\<newline>\<newline>## Key Financial Events Worldwide\<newline>\<newline>''
                 @ join (ascii ''\<newline>\<newline>'') bullets
                 @ ascii ''\<newline>\<newline>---\<newline>'' @ rest
           \<and> starts_with (ascii ''**'') (join (ascii ''\<newline>\<newline>'') bullets)
           \<and> occurrences ?S doc' = occurrences ?S (join (ascii ''\<newline>\<newline>'') bullets)"
    by blast
qed

theorem fallback_sentence_placement_witness:
  "occurrences_in_output (ascii ''Unable to fetch current news. Please check API configurations.'')
     (fst (generate_investment_insights world_offline [] initial_state)) = 1
   \<and> occurrences_in_output (ascii ''Unable to fetch current news. Please check API configurations.'')
     (fst (generate_investment_insights world_offline [news_entry ''t'' ''d''] initial_state)) = 0"
proof -
  let ?S = "ascii ''Unable to fetch current news. Please check API configurations.''"
  let ?D = "document (headline_date world_offline initial_state)
          (news_section (join bullet_separator [ascii ''**t**: d''])) 1
          (generated_stamp world_offline initial_state)"
  have r: "render_items world_offline (take 5 [news_entry ''t'' ''d'']) = Inr [ascii ''**t**: d'']"
    by (simp add: render_item_entry ascii_def)
  then have g: "fst (generate_investment_insights world_offline [news_entry ''t'' ''d''] initial_state) = Inr ?D"
    by (simp add: generate_investment_insights_def datetime_now_def Let_def headline_date_def
      generated_stamp_def bullet_separator_def)
  note inst = fallback_sentence_placement [of world_offline initial_state "[news_entry ''t'' ''d'']" ?D]
  from inst obtain doc where
    "fst (generate_investment_insights world_offline [] initial_state) = Inr doc"
    and "occurrences ?S doc = 1"
    by blast
  then have first: "occurrences_in_output ?S (fst (generate_investment_insights world_offline [] initial_state)) = 1"
    by (simp add: occurrences_in_output_def)
  from inst g obtain bullets where
    b: "render_items world_offline (take 5 [news_entry ''t'' ''d'']) = Inr bullets"
    and o: "occurrences ?S ?D = occurrences ?S (join (ascii ''\<newline>\<newline>'') bullets)"
    by blast
  from b r have "bullets = [ascii ''**t**: d'']"
    by (simp only: sum.inject)
  with o have "occurrences ?S ?D = occurrences ?S (ascii ''**t**: d'')"
    by (simp only: join.simps)
  also have "\<dots> = 0"
    by (simp add: ascii_def)
  finally have "occurrences_in_output ?S (fst (generate_investment_insights world_offline [news_entry ''t'' ''d''] initial_state)) = 0"
    by (simp add: g occurrences_in_output_def)
  with first show ?thesis by blast
qed

text \<open>
  The claim as stated fails: for the non-empty news sequence whose one item has the
  sentence as its snippet, the document contains the sentence.
\<close>

theorem fallback_text_from_item:
  "[item_quoting_fallback] \<noteq> []
   \<and> occurrences_in_output (ascii ''Unable to fetch current news. Please check API configurations.'')
     (fst (generate_investment_insights world_offline [item_quoting_fallback] initial_state)) = 1"
proof -
  let ?S = "ascii ''Unable to fetch current news. Please check API configurations.''"
  let ?b = "ascii ''**Note**: Unable to fetch current news. Please check API configurations.''"
  let ?D = "document (headline_date world_offline initial_state) ?b 1
          (generated_stamp world_offline initial_state)"
  have "render_items world_offline (take 5 [item_quoting_fallback]) = Inr [?b]"
    by (simp add: render_item_def item_quoting_fallback_def format_value_def ascii_def)
  then have g: "fst (generate_investment_insights world_offline [item_quoting_fallback] initial_state) = Inr ?D"
    by (simp add: generate_investment_insights_def datetime_now_def Let_def headline_date_def
      generated_stamp_def news_section_def ascii_def)
  have "occurrences ?S ?D = occurrences ?S ?b"
    unfolding fallback_literal(1)
    by (rule generated_document_occurrences) (rule fallback_literal(2))
  also have "\<dots> = 1"
    by (simp add: ascii_def)
  finally show ?thesis
    by (simp add: g occurrences_in_output_def)
qed

section \<open>The publisher's result\<close>

lemma create_notion_page_result:
  "fst (create_notion_page w cfg content s) =
    (case net w (length (requests s)) (create_request w cfg content s) of
       Inl e \<Rightarrow> False
     | Inr response \<Rightarrow>
         status_code response = 200 \<and> (case json_body response of None \<Rightarrow> False | Some v \<Rightarrow> is_dict v))"
  by (auto simp: create_notion_page_def create_attempt_def requests_post_def datetime_now_def
      report_created_def report_rejected_def print_def create_request_def page_title_at_def
      response_json_def is_dict_def Let_def split: sum.splits prod.splits option.splits json.splits)

text \<open>
  Claim C4 fails on the code: for a response with status 200 whose body is not JSON, the
  publisher prints the success line, then the evaluation of
  \<^verbatim>\<open>response.json().get('url')\<close> for the next line raises inside the
  \<^verbatim>\<open>try\<close> block, and the handler returns \<^verbatim>\<open>False\<close>.
\<close>

theorem create_fails_on_200_without_json:
  "net world_200_html 0 (create_request world_200_html sample_config (ascii ''report'') initial_state)
     = Inr response_200_html
   \<and> status_code response_200_html = 200
   \<and> fst (create_notion_page world_200_html sample_config (ascii ''report'') initial_state) = False
   \<and> console (snd (create_notion_page world_200_html sample_config (ascii ''report'') initial_state)) =
       [Line ([0x2705] @ ascii '' Successfully created Notion page: Financial Intelligence - November 06, 2026''),
        LineExc ([0x274C] @ ascii '' Exception creating Notion page: '') JSONDecodeError]"
  by (simp add: create_notion_page_def create_attempt_def requests_post_def datetime_now_def
      report_created_def print_def response_json_def world_200_html_def response_200_html_def
      initial_state_def sample_time_def strftime.simps directive_def zero_pad_def str_of_nat.simps
      month_name_def ascii_def Let_def)

section \<open>The result of a run\<close>

lemma render_items_dicts:
  "\<forall>item \<in> set items. is_dict item \<Longrightarrow> \<exists>bullets. render_items w items = Inr bullets"
proof (induction items)
  case Nil
  show ?case by simp
next
  case (Cons item items)
  then obtain kvs where "item = JObj kvs"
    by (cases item) (auto simp: is_dict_def)
  then have "\<exists>b. render_item w item = Inr b"
    by (simp add: render_item_def)
  with Cons show ?case by auto
qed

lemma generate_succeeds_on_dicts:
  assumes "\<forall>item \<in> set (take 5 news). is_dict item"
  shows "\<exists>doc. fst (generate_investment_insights w news s) = Inr doc"
  using render_items_dicts [OF assms, of w]
  by (auto simp: generate_investment_insights_def datetime_now_def Let_def split: prod.splits)

lemma main_step_4_result:
  "fst (main_step_4 w cfg content s) = fst (create_notion_page w cfg content (print creating_line s))"
  by (simp add: main_step_4_def split: prod.splits)

lemma print_requests: "requests (print l s) = requests s"
  by (simp add: print_def)

lemma generate_requests: "requests (snd (generate_investment_insights w news s)) = requests s"
  by (simp add: generate_investment_insights_def datetime_now_def Let_def split: sum.splits)

lemma generate_raises:
  "render_items w (take 5 news) = Inl e \<Longrightarrow> fst (generate_investment_insights w news s) = Inl e"
  by (simp add: generate_investment_insights_def datetime_now_def Let_def)

lemma main_steps_1_to_3_raises:
  assumes "render_items w (take 5 (fst (search_financial_news w cfg (print fetching_line s)))) = Inl e"
  shows "fst (main_steps_1_to_3 w cfg s) = Inl e"
proof -
  obtain news s2 where f: "search_financial_news w cfg (print fetching_line s) = (news, s2)"
    by (cases "search_financial_news w cfg (print fetching_line s)")
  with assms have r: "render_items w (take 5 news) = Inl e" by simp
  show ?thesis
    using f generate_raises [OF r]
    by (simp add: main_steps_1_to_3_def fetching_line_def Let_def case_prod_beta split: sum.splits)
qed

lemma main_steps_1_to_3_requests:
  "requests (snd (main_steps_1_to_3 w cfg s)) =
     requests (snd (search_financial_news w cfg (print fetching_line s)))"
proof -
  obtain news s2 where f: "search_financial_news w cfg (print fetching_line s) = (news, s2)"
    by (cases "search_financial_news w cfg (print fetching_line s)")
  show ?thesis
    using f
    by (simp add: main_steps_1_to_3_def fetching_line_def Let_def case_prod_beta print_requests
        generate_requests split: sum.splits)
qed

lemma main_raises:
  assumes "truthy (NOTION_API_KEY cfg)" and "truthy (NOTION_DATABASE_ID cfg)"
    and "render_items w (take 5 (fetched_news w cfg s)) = Inl e"
  shows "fst (main w cfg s) = Inl e"
    and "requests (snd (main w cfg s)) =
      requests (snd (search_financial_news w cfg (print fetching_line (print validated_line (main_begin w s)))))"
proof -
  from assms(3) have r: "fst (main_steps_1_to_3 w cfg (print validated_line (main_begin w s))) = Inl e"
    by (simp add: fetched_news_def main_steps_1_to_3_raises)
  then obtain s3 where m: "main_steps_1_to_3 w cfg (print validated_line (main_begin w s)) = (Inl e, s3)"
    by (cases "main_steps_1_to_3 w cfg (print validated_line (main_begin w s))") auto
  from m have s3: "requests s3 =
     requests (snd (search_financial_news w cfg (print fetching_line (print validated_line (main_begin w s)))))"
    using main_steps_1_to_3_requests [of w cfg "print validated_line (main_begin w s)"] by simp
  from assms(1,2) m show "fst (main w cfg s) = Inl e"
    by (simp add: main_def validated_line_def Let_def)
  from assms(1,2) m s3 show "requests (snd (main w cfg s)) =
      requests (snd (search_financial_news w cfg (print fetching_line (print validated_line (main_begin w s)))))"
    by (simp add: main_def validated_line_def Let_def)
qed

lemma main_begin_clock_reads: "clock_reads (main_begin w s) = Suc (clock_reads s)"
  by (simp add: main_begin_def print_def datetime_now_def Let_def)

lemma print_clock_reads: "clock_reads (print l s) = clock_reads s"
  by (simp add: print_def)

lemma sample_date: "strftime ''%Y-%m-%d'' sample_time = ascii ''2026-11-06''"
  by (simp add: sample_time_def strftime.simps directive_def zero_pad_def str_of_nat.simps ascii_def)

lemma initial_state_fields:
  "console initial_state = []" "requests initial_state = []" "clock_reads initial_state = 0"
  by (simp_all add: initial_state_def)

lemma steps_requests_length:
  assumes "SERPER_API_KEY cfg = Some key" and "key \<noteq> []"
  shows "length (requests (snd (main_steps_1_to_3 w cfg s))) = length (requests s) + 3"
  by (simp add: main_steps_1_to_3_requests search_financial_news_with_key [OF assms]
      print_requests search_queries_def)

lemma world_mixed_net:
  "net world_mixed n req =
     (if n = 0 then Inr (response_ok (JObj [(ascii ''organic'',
                 JArr [news_entry ''a1'' ''x'', news_entry ''a2'' ''x'', news_entry ''a3'' ''x'',
                       news_entry ''a4'' ''x''])]))
      else if n = 1 then Inr response_500
      else if n = 2 then Inr (response_ok (JObj [(ascii ''organic'', JArr [news_entry ''c1'' ''y''])]))
      else Inr (response_ok (JObj [(ascii ''url'', JStr (ascii ''https://www.notion.so/p1''))])))"
  by (simp add: world_mixed_def)

text \<open>
  Claim C5, as amended. Whenever both required configuration values are present and each
  of the first five fetched items is a dict, steps 1 to 3 return a document, and the
  result of \<^verbatim>\<open>main\<close> is the result of the publisher for that document; the exit
  status of the process is 0 when that result is \<^verbatim>\<open>True\<close> and 1 otherwise.
\<close>

theorem main_result_is_publish_result:
  assumes "truthy (NOTION_API_KEY cfg)" and "truthy (NOTION_DATABASE_ID cfg)"
    and "\<forall>item \<in> set (take 5 (fetched_news w cfg s)). is_dict item"
  shows "\<exists>content s'.
      main_steps_1_to_3 w cfg (print validated_line (main_begin w s)) = (Inr content, s')
    \<and> fst (main w cfg s) = Inr (fst (create_notion_page w cfg content (print creating_line s')))
    \<and> fst (script w cfg) = exit_status (fst (main w cfg initial_state))
    \<and> exit_status (fst (main w cfg s)) =
        (if fst (create_notion_page w cfg content (print creating_line s')) then 0 else 1)"
proof -
  define s1 where "s1 = print fetching_line (print validated_line (main_begin w s))"
  obtain news s2 where f: "search_financial_news w cfg s1 = (news, s2)"
    by (cases "search_financial_news w cfg s1")
  then have "news = fetched_news w cfg s"
    by (simp add: fetched_news_def s1_def)
  with assms(3) have dicts: "\<forall>item \<in> set (take 5 news). is_dict item" by simp
  define s6 where "s6 = print (Line (ascii ''\<newline>'' @ [0x1F9E0] @ ascii '' Generating investment insights...''))
     (print (Line ([0x2705] @ ascii '' Market data analyzed''))
       (print (Line (ascii ''\<newline>'' @ [0x1F4CA] @ ascii '' Analyzing market data...''))
         (print (Line ([0x2705] @ ascii '' Found '' @ str_of_nat (length news) @ ascii '' news items'')) s2)))"
  from generate_succeeds_on_dicts [OF dicts] obtain doc where
    "fst (generate_investment_insights w news s6) = Inr doc" by blast
  then obtain s7 where g: "generate_investment_insights w news s6 = (Inr doc, s7)"
    by (cases "generate_investment_insights w news s6") auto
  have steps: "main_steps_1_to_3 w cfg (print validated_line (main_begin w s)) =
      (Inr doc, print (Line ([0x2705] @ ascii '' Insights generated'')) s7)"
    using f g by (simp add: main_steps_1_to_3_def s1_def s6_def fetching_line_def Let_def)
  have "fst (main w cfg s) = Inr (fst (create_notion_page w cfg doc
      (print creating_line (print (Line ([0x2705] @ ascii '' Insights generated'')) s7))))"
    using assms(1,2) steps
    by (simp add: main_def validated_line_def Let_def main_step_4_result case_prod_beta)
  moreover have "fst (script w cfg) = exit_status (fst (main w cfg initial_state))"
    by (simp add: script_def split: prod.splits)
  ultimately show ?thesis
    using steps by (auto simp: exit_status_def)
qed

theorem main_result_is_publish_result_witness:
  "truthy (NOTION_API_KEY sample_config) \<and> truthy (NOTION_DATABASE_ID sample_config)
   \<and> list_all is_dict (take 5 (fetched_news world_mixed sample_config initial_state))
   \<and> fst (main world_mixed sample_config initial_state) = Inr True
   \<and> fst (script world_mixed sample_config) = 0"
proof -
  have t: "truthy (NOTION_API_KEY sample_config)" "truthy (NOTION_DATABASE_ID sample_config)"
    by (simp_all add: sample_config_def truthy_def ascii_def)
  have f: "fetched_news world_mixed sample_config initial_state =
     [news_entry ''a1'' ''x'', news_entry ''a2'' ''x'', news_entry ''a3'' ''x'', news_entry ''c1'' ''y'']"
    by (simp add: fetched_news_def search_financial_news_with_key [OF sample_config_key]
        search_outcomes_three print_requests main_begin_requests initial_state_fields
        world_mixed_net query_results_def search_response_def
        response_ok_def response_500_def response_json_def ascii_def)
  have d: "\<forall>item \<in> set (take 5 (fetched_news world_mixed sample_config initial_state)). is_dict item"
    by (simp add: f news_entry_def is_dict_def)
  from main_result_is_publish_result [OF t d] obtain content s' where
    steps: "main_steps_1_to_3 world_mixed sample_config (print validated_line (main_begin world_mixed initial_state))
       = (Inr content, s')"
    and m: "fst (main world_mixed sample_config initial_state) =
       Inr (fst (create_notion_page world_mixed sample_config content (print creating_line s')))"
    and e: "fst (script world_mixed sample_config) = exit_status (fst (main world_mixed sample_config initial_state))"
    by blast
  have "length (requests s') = 3"
    using steps_requests_length [OF sample_config_key, of world_mixed "print validated_line (main_begin world_mixed initial_state)"]
    by (simp add: steps print_requests main_begin_requests initial_state_fields)
  then have "fst (create_notion_page world_mixed sample_config content (print creating_line s')) = True"
    by (simp add: create_notion_page_result print_requests world_mixed_net response_ok_def is_dict_def)
  with t d m e show ?thesis by (simp add: exit_status_def list_all_iff)
qed

text \<open>
  The claim as stated fails: both configuration values are present, the search provider
  answers with entries that are strings, the composer raises \<^verbatim>\<open>AttributeError\<close> on
  the first of them, and the process ends with status 1 after the three search requests,
  without any request of the publisher.
\<close>

theorem main_fails_in_compose:
  "truthy (NOTION_API_KEY sample_config) \<and> truthy (NOTION_DATABASE_ID sample_config)
   \<and> fst (main world_strings sample_config initial_state) = Inl AttributeError
   \<and> fst (script world_strings sample_config) = 1
   \<and> requests (snd (script world_strings sample_config)) =
       map (serper_request (ascii ''serper'')) (search_queries (ascii ''2026-11-06''))"
proof -
  have t: "truthy (NOTION_API_KEY sample_config)" "truthy (NOTION_DATABASE_ID sample_config)"
    by (simp_all add: sample_config_def truthy_def ascii_def)
  have q: "query_results (Inr (response_ok (JObj [(ascii ''organic'', JArr [JStr (ascii ''headline'')])])))
     = [JStr (ascii ''headline'')]"
    by (simp add: query_results_def search_response_def response_ok_def response_json_def ascii_def)
  have n: "net world_strings k req = Inr (response_ok (JObj [(ascii ''organic'', JArr [JStr (ascii ''headline'')])]))"
    for k req by (simp add: world_strings_def)
  have f: "fetched_news world_strings sample_config initial_state =
     [JStr (ascii ''headline''), JStr (ascii ''headline''), JStr (ascii ''headline'')]"
    by (simp add: fetched_news_def search_financial_news_with_key [OF sample_config_key]
        search_outcomes_three n q)
  have r: "render_items world_strings (take 5 (fetched_news world_strings sample_config initial_state))
     = Inl AttributeError"
    by (simp add: f render_item_def)
  have c: "clock world_strings k = sample_time" for k
    by (simp add: world_strings_def)
  have m1: "fst (main world_strings sample_config initial_state) = Inl AttributeError"
    by (rule main_raises(1) [OF t r])
  have m2: "requests (snd (main world_strings sample_config initial_state)) =
       map (serper_request (ascii ''serper'')) (search_queries (ascii ''2026-11-06''))"
    by (simp add: main_raises(2) [OF t r] search_financial_news_with_key [OF sample_config_key]
        print_requests print_clock_reads main_begin_requests main_begin_clock_reads c sample_date
        initial_state_fields)
  show ?thesis
    using t m1 m2 by (simp add: script_def exit_status_def case_prod_beta)
qed

end
